theory Spec2Isabelle
  imports
    Main
    "HOL-Library.Word"
    "HOL-Library.Char_ord"
    "HOL-Library.List_Lexorder"
    "HOL-Library.Multiset"
begin

unbundle bit_operations_syntax

section \<open>Profile documents\<close>

text \<open>
  A profile is what \<^verbatim>\<open>json.load\<close> returns for a JSON object: a Python \<^verbatim>\<open>dict\<close> with
  string keys. A Python dict keeps its keys in insertion order and holds every key once,
  so a dict is an association list whose keys are distinct (\<open>wf_json\<close> below); the order
  is kept because \<^verbatim>\<open>json.dumps\<close> is sensitive to it unless it sorts.

  Numbers are Python's unbounded integers; floating-point numbers are not modelled.
  A character is a code point below 256, and strings compare as Python's \<^verbatim>\<open>str\<close>
  does, lexicographically by code point.
\<close>

datatype json =
    JNull
  | JBool bool
  | JInt int
  | JStr string
  | JList "json list"
  | JObj "(string \<times> json) list"

type_synonym profile = "(string \<times> json) list"


text \<open>\<^verbatim>\<open>d.get(k)\<close>: the value stored under a key, if any.\<close>

definition dict_get :: "profile \<Rightarrow> string \<Rightarrow> json option" where
  "dict_get d k = map_of d k"

text \<open>\<^verbatim>\<open>d.get(k, default)\<close>.\<close>

definition dict_get_default :: "profile \<Rightarrow> string \<Rightarrow> json \<Rightarrow> json" where
  "dict_get_default d k dflt = (case map_of d k of None \<Rightarrow> dflt | Some v \<Rightarrow> v)"

text \<open>
  \<^verbatim>\<open>d[k] = v\<close>: an existing key keeps its position and takes the new value, a new
  key goes to the end.
\<close>

fun dict_set :: "profile \<Rightarrow> string \<Rightarrow> json \<Rightarrow> profile" where
  "dict_set [] k v = [(k, v)]"
| "dict_set ((k', v') # d) k v = (if k' = k then (k, v) # d else (k', v') # dict_set d k v)"

text \<open>
  \<^verbatim>\<open>{**a, **b}\<close>: a new dict that starts as a copy of \<open>a\<close> and then stores the items of
  \<open>b\<close> one by one, in \<open>b\<close>'s order.
\<close>

definition dict_union :: "profile \<Rightarrow> profile \<Rightarrow> profile" where
  "dict_union a b = fold (\<lambda>(k, v) d. dict_set d k v) b a"

text \<open>Python's truth value of a dict (\<^verbatim>\<open>if d\<close>): false exactly for the empty dict.\<close>

definition truthy :: "profile option \<Rightarrow> bool" where
  "truthy p = (case p of None \<Rightarrow> False | Some d \<Rightarrow> d \<noteq> [])"

section \<open>Canonical serialization and digest\<close>

text \<open>
  \<^verbatim>\<open>json.dumps(profile_data, sort_keys=True)\<close> with the default separators
  (\<^verbatim>\<open>", "\<close> and \<^verbatim>\<open>": "\<close>) and \<^verbatim>\<open>ensure_ascii=True\<close>.
\<close>

definition hex_digit :: "nat \<Rightarrow> char" where
  "hex_digit n = ''0123456789abcdef'' ! (n mod 16)"

text \<open>
  The encoder's string escape: the short escapes, \<^verbatim>\<open>\u00XX\<close> for every other character
  outside the range from space to tilde, and the character itself otherwise.
\<close>

definition escape_char :: "char \<Rightarrow> string" where
  "escape_char c =
     (if c = CHR 0x22 then [CHR 0x5C, CHR 0x22]
      else if c = CHR 0x5C then [CHR 0x5C, CHR 0x5C]
      else if c = CHR 0x0A then [CHR 0x5C, CHR ''n'']
      else if c = CHR 0x0D then [CHR 0x5C, CHR ''r'']
      else if c = CHR 0x09 then [CHR 0x5C, CHR ''t'']
      else if c = CHR 0x0C then [CHR 0x5C, CHR ''f'']
      else if c = CHR 0x08 then [CHR 0x5C, CHR ''b'']
      else if of_char c < (32::nat) \<or> of_char c > (126::nat)
        then [CHR 0x5C, CHR ''u'', CHR ''0'', CHR ''0'',
              hex_digit (of_char c div 16), hex_digit (of_char c mod 16)]
      else [c])"

definition dumps_str :: "string \<Rightarrow> string" where
  "dumps_str s = [CHR 0x22] @ concat (map escape_char s) @ [CHR 0x22]"

function dec_nat :: "nat \<Rightarrow> string" where
  "dec_nat n = (if n < 10 then [hex_digit n] else dec_nat (n div 10) @ [hex_digit (n mod 10)])"
  by pat_completeness auto
termination
  by (relation "measure id") auto

definition dumps_int :: "int \<Rightarrow> string" where
  "dumps_int i = (if i < 0 then CHR ''-'' # dec_nat (nat (- i)) else dec_nat (nat i))"

text \<open>\<^verbatim>\<open>sep.join(parts)\<close>.\<close>

fun join :: "string \<Rightarrow> string list \<Rightarrow> string" where
  "join sep [] = []"
| "join sep [x] = x"
| "join sep (x # y # ys) = x @ sep @ join sep (y # ys)"

text \<open>
  The encoder sorts a dict's items by key (\<^verbatim>\<open>sorted(dct.items())\<close>; the keys of a dict
  are distinct, so the values never decide the order) and writes them in that order.
  Here the values are serialized before the items are sorted, which gives the same text
  (\<open>sort_key_map_values\<close> below) and keeps the recursion structural.
\<close>

fun dumps :: "json \<Rightarrow> string" where
  "dumps JNull = ''null''"
| "dumps (JBool b) = (if b then ''true'' else ''false'')"
| "dumps (JInt i) = dumps_int i"
| "dumps (JStr s) = dumps_str s"
| "dumps (JList xs) = ''['' @ join '', '' (map dumps xs) @ '']''"
| "dumps (JObj kvs) =
     ''{'' @ join '', ''
        (map (\<lambda>(k, s). dumps_str k @ '': '' @ s)
          (sort_key fst (map (\<lambda>(k, v). (k, dumps v)) kvs))) @ ''}''"

text \<open>
  \<^verbatim>\<open>hashlib.sha256\<close> is the standard library's; it enters as a parameter, a function
  from the text to a 256-bit digest. \<^verbatim>\<open>hexdigest()\<close> writes the digest as 64 lower-case
  hexadecimal digits, most significant first.
\<close>

definition hexdigest :: "256 word \<Rightarrow> string" where
  "hexdigest w = map (\<lambda>i. hex_digit (unat (drop_bit (4 * (63 - i)) w AND 15))) [0..<64]"


section \<open>Comparing values\<close>

text \<open>
  Python's \<^verbatim>\<open>==\<close> and \<^verbatim>\<open>>\<close> on the values a profile can hold. \<^verbatim>\<open>True\<close> and \<^verbatim>\<open>False\<close> are the
  integers 1 and 0; dicts are equal when they hold the same items in any order; strings
  and lists are ordered lexicographically; every other pair of operands of \<^verbatim>\<open>>\<close> raises
  \<^verbatim>\<open>TypeError\<close>.
\<close>

datatype error = TypeError

fun py_eq :: "json \<Rightarrow> json \<Rightarrow> bool" where
  "py_eq (JList xs) (JList ys) = list_all2 py_eq xs ys"
| "py_eq (JObj a) (JObj b) =
     (length a = length b \<and>
      list_all (\<lambda>(k, v). case map_of b k of None \<Rightarrow> False | Some w \<Rightarrow> py_eq v w) a)"
| "py_eq (JBool x) (JInt y) = ((if x then 1 else 0) = y)"
| "py_eq (JInt x) (JBool y) = (x = (if y then 1 else 0))"
| "py_eq x y = (x = y)"

fun py_gt :: "json \<Rightarrow> json \<Rightarrow> error + bool"
  and py_gt_list :: "json list \<Rightarrow> json list \<Rightarrow> error + bool" where
  "py_gt (JStr a) (JStr b) = Inr (a > b)"
| "py_gt (JInt a) (JInt b) = Inr (a > b)"
| "py_gt (JInt a) (JBool b) = Inr (a > (if b then 1 else 0))"
| "py_gt (JBool a) (JInt b) = Inr ((if a then 1 else 0) > b)"
| "py_gt (JBool a) (JBool b) = Inr (a \<and> \<not> b)"
| "py_gt (JList xs) (JList ys) = py_gt_list xs ys"
| "py_gt _ _ = Inl TypeError"
| "py_gt_list [] ys = Inr False"
| "py_gt_list (x # xs) [] = Inr True"
| "py_gt_list (x # xs) (y # ys) = (if py_eq x y then py_gt_list xs ys else py_gt x y)"

section \<open>The engine\<close>

text \<open>
  The constructor's arguments and the environment the engine runs in.
  \<open>now cfg n\<close> is what \<^verbatim>\<open>datetime.now().isoformat()\<close> returns at the \<open>n\<close>-th reading of the
  clock; \<open>write_error cfg path\<close> is the text of the exception that opening \<open>path\<close> for
  writing raises, if it raises. \<open>cloud_url\<close> is \<^verbatim>\<open>None\<close> or a string.
\<close>

record config =
  local_dir :: string
  cloud_url :: "string option"
  sha256 :: "string \<Rightarrow> 256 word"
  now :: "nat \<Rightarrow> string"
  write_error :: "string \<Rightarrow> string option"

record log_entry =
  timestamp :: string
  level :: string
  message :: string

text \<open>
  A file of the profile directory either holds a JSON object or cannot be read as
  one: \<open>Unreadable e\<close> is a file on which \<^verbatim>\<open>open\<close> or \<^verbatim>\<open>json.load\<close> raises an exception
  whose text is \<open>e\<close>. Files holding JSON that is not an object are outside the model
  (the code types every profile as \<^verbatim>\<open>Dict\<close>).
\<close>

datatype file_content = Unreadable string | Content profile

text \<open>
  What the engine changes: its log, the files, and the number of clock readings made so
  far.
\<close>

record state =
  sync_log :: "log_entry list"
  files :: "string \<rightharpoonup> file_content"
  clock :: nat

text \<open>\<^verbatim>\<open>ProfileSync(local_dir, cloud_url)\<close>: the log starts empty.\<close>

definition init :: "(string \<rightharpoonup> file_content) \<Rightarrow> state" where
  "init fs = \<lparr>sync_log = [], files = fs, clock = 0\<rparr>"

text \<open>The result dict of \<^verbatim>\<open>sync_profile\<close>; the key \<^verbatim>\<open>strategy\<close> is set in one case only.\<close>

record sync_result =
  status :: string
  action :: string
  profile :: "profile option"
  strategy :: "string option"

text \<open>\<^verbatim>\<open>os.path.join(a, b)\<close> on POSIX.\<close>

definition path_join :: "string \<Rightarrow> string \<Rightarrow> string" where
  "path_join a b =
     (if b \<noteq> [] \<and> hd b = CHR ''/'' then b
      else if a = [] \<or> last a = CHR ''/'' then a @ b
      else a @ ''/'' @ b)"

definition local_path :: "config \<Rightarrow> string \<Rightarrow> string" where
  "local_path cfg profile_id = path_join (local_dir cfg) (profile_id @ ''.json'')"

definition cloud_path :: "config \<Rightarrow> string \<Rightarrow> string" where
  "cloud_path cfg profile_id = path_join (local_dir cfg) (''cloud_'' @ profile_id @ ''.json'')"

text \<open>\<^verbatim>\<open>not self.cloud_url\<close>: true for \<^verbatim>\<open>None\<close> and for the empty string.\<close>

definition no_cloud :: "config \<Rightarrow> bool" where
  "no_cloud cfg = (case cloud_url cfg of None \<Rightarrow> True | Some u \<Rightarrow> u = [])"

text \<open>\<^verbatim>\<open>xs[i:]\<close> for an integer \<open>i\<close>: a negative \<open>i\<close> counts from the end.\<close>

definition slice_from :: "'a list \<Rightarrow> int \<Rightarrow> 'a list" where
  "slice_from xs i =
     (if i < 0 then drop (nat (int (length xs) + i)) xs else drop (nat i) xs)"

definition get_profile_hash :: "config \<Rightarrow> profile \<Rightarrow> string" where
  "get_profile_hash cfg profile_data = hexdigest (sha256 cfg (dumps (JObj profile_data)))"

definition log_sync :: "config \<Rightarrow> state \<Rightarrow> string \<Rightarrow> string \<Rightarrow> state" where
  "log_sync cfg st msg lvl =
     (let log_entry = \<lparr>timestamp = now cfg (clock st), level = lvl, message = msg\<rparr>;
          lg = sync_log st @ [log_entry]
      in st\<lparr>sync_log := (if length lg > 100 then slice_from lg (- 100) else lg),
            clock := clock st + 1\<rparr>)"

definition get_sync_log :: "state \<Rightarrow> int \<Rightarrow> log_entry list" where
  "get_sync_log st limit = slice_from (sync_log st) (- limit)"

definition load_local_profile :: "config \<Rightarrow> state \<Rightarrow> string \<Rightarrow> profile option \<times> state" where
  "load_local_profile cfg st profile_id =
     (case files st (local_path cfg profile_id) of
        None \<Rightarrow> (None, st)
      | Some (Content d) \<Rightarrow> (Some d, st)
      | Some (Unreadable e) \<Rightarrow>
          (None, log_sync cfg st (''Error loading local profile '' @ profile_id @ '': '' @ e) ''error''))"

text \<open>
  The functions that write take the dict and return it as they leave it: Python passes
  the dict by reference, so the caller sees the keys the callee set.
\<close>

definition save_local_profile ::
  "config \<Rightarrow> state \<Rightarrow> string \<Rightarrow> profile \<Rightarrow> bool \<times> profile \<times> state" where
  "save_local_profile cfg st profile_id profile_data =
     (let d1 = dict_set profile_data ''last_sync'' (JStr (now cfg (clock st)));
          st1 = st\<lparr>clock := clock st + 1\<rparr>;
          d2 = dict_set d1 ''sync_hash'' (JStr (get_profile_hash cfg d1))
      in case write_error cfg (local_path cfg profile_id) of
           None \<Rightarrow>
             (True, d2,
              log_sync cfg (st1\<lparr>files := (files st1)(local_path cfg profile_id \<mapsto> Content d2)\<rparr>)
                (''Saved local profile '' @ profile_id) ''success'')
         | Some e \<Rightarrow>
             (False, d2,
              log_sync cfg st1 (''Error saving local profile '' @ profile_id @ '': '' @ e) ''error''))"

definition fetch_cloud_profile :: "config \<Rightarrow> state \<Rightarrow> string \<Rightarrow> profile option \<times> state" where
  "fetch_cloud_profile cfg st profile_id =
     (if no_cloud cfg then (None, st)
      else case files st (cloud_path cfg profile_id) of
        None \<Rightarrow> (None, st)
      | Some (Content d) \<Rightarrow>
          (Some d, log_sync cfg st (''Fetched cloud profile '' @ profile_id) ''success'')
      | Some (Unreadable e) \<Rightarrow>
          (None, log_sync cfg st (''Error fetching cloud profile '' @ profile_id @ '': '' @ e) ''error''))"

definition push_cloud_profile ::
  "config \<Rightarrow> state \<Rightarrow> string \<Rightarrow> profile \<Rightarrow> bool \<times> profile \<times> state" where
  "push_cloud_profile cfg st profile_id profile_data =
     (if no_cloud cfg then (False, profile_data, st)
      else
        let d1 = dict_set profile_data ''last_cloud_sync'' (JStr (now cfg (clock st)));
            st1 = st\<lparr>clock := clock st + 1\<rparr>
        in case write_error cfg (cloud_path cfg profile_id) of
             None \<Rightarrow>
               (True, d1,
                log_sync cfg (st1\<lparr>files := (files st1)(cloud_path cfg profile_id \<mapsto> Content d1)\<rparr>)
                  (''Pushed cloud profile '' @ profile_id) ''success'')
           | Some e \<Rightarrow>
               (False, d1,
                log_sync cfg st1 (''Error pushing cloud profile '' @ profile_id @ '': '' @ e) ''error''))"

text \<open>
  The comparison of the two time stamps is the one place of the engine where an
  exception can leave \<^verbatim>\<open>resolve_conflict\<close>, and with it \<^verbatim>\<open>sync_profile\<close>.
\<close>

definition resolve_conflict ::
  "config \<Rightarrow> state \<Rightarrow> profile \<Rightarrow> profile \<Rightarrow> string \<Rightarrow> (error + profile) \<times> state" where
  "resolve_conflict cfg st local_profile cloud_profile strat =
     (if strat = ''newest'' then
        (let local_time = dict_get_default local_profile ''last_sync'' (JStr ''1970-01-01T00:00:00'');
             cloud_time = dict_get_default cloud_profile ''last_cloud_sync'' (JStr ''1970-01-01T00:00:00'')
         in case py_gt local_time cloud_time of
              Inl e \<Rightarrow> (Inl e, st)
            | Inr b \<Rightarrow>
                (Inr (if b then local_profile else cloud_profile),
                 log_sync cfg st (''Conflict resolved using newest ('' @ strat @ '')'') ''info''))
      else if strat = ''local'' then
        (Inr local_profile, log_sync cfg st ''Conflict resolved using local version'' ''info'')
      else if strat = ''cloud'' then
        (Inr cloud_profile, log_sync cfg st ''Conflict resolved using cloud version'' ''info'')
      else if strat = ''merge'' then
        (Inr (dict_union local_profile cloud_profile),
         log_sync cfg st ''Conflict resolved using merge strategy'' ''info'')
      else (Inr local_profile, st))"

text \<open>
  \<^verbatim>\<open>sync_profile\<close> tests the two loaded values for truth (\<^verbatim>\<open>if local_profile and not
  cloud_profile\<close>, and so on), and a value is true when it is a non-empty dict. The four
  tests exclude each other, so the chain of \<^verbatim>\<open>if\<close>s is a case distinction on which of
  the two values are true.
\<close>

definition sync_profile ::
  "config \<Rightarrow> state \<Rightarrow> string \<Rightarrow> string \<Rightarrow> (error + sync_result) \<times> state" where
  "sync_profile cfg st profile_id strat =
     (let (local_profile, st1) = load_local_profile cfg st profile_id;
          (cloud_profile, st2) = fetch_cloud_profile cfg st1 profile_id
      in
        if truthy local_profile \<and> \<not> truthy cloud_profile then
          (let (ok, p, st3) = push_cloud_profile cfg st2 profile_id (the local_profile)
           in (Inr \<lparr>status = ''synced'', action = ''uploaded_to_cloud'',
                    profile = Some p, strategy = None\<rparr>, st3))
        else if truthy cloud_profile \<and> \<not> truthy local_profile then
          (let (ok, p, st3) = save_local_profile cfg st2 profile_id (the cloud_profile)
           in (Inr \<lparr>status = ''synced'', action = ''downloaded_from_cloud'',
                    profile = Some p, strategy = None\<rparr>, st3))
        else if truthy local_profile \<and> truthy cloud_profile then
          (let local_hash = get_profile_hash cfg (the local_profile);
               cloud_hash = get_profile_hash cfg (the cloud_profile)
           in if local_hash = cloud_hash then
                (Inr \<lparr>status = ''synced'', action = ''already_synced'',
                      profile = local_profile, strategy = None\<rparr>, st2)
              else
                (case resolve_conflict cfg st2 (the local_profile) (the cloud_profile) strat of
                   (Inl e, st3) \<Rightarrow> (Inl e, st3)
                 | (Inr resolved, st3) \<Rightarrow>
                     (let (ok1, r1, st4) = save_local_profile cfg st3 profile_id resolved;
                          (ok2, r2, st5) = push_cloud_profile cfg st4 profile_id r1
                      in (Inr \<lparr>status = ''synced'', action = ''conflict_resolved'',
                               profile = Some r2, strategy = Some strat\<rparr>, st5))))
        else
          (Inr \<lparr>status = ''error'', action = ''profile_not_found'',
                profile = None, strategy = None\<rparr>, st2))"


section \<open>Runs of calls, and sample data\<close>

text \<open>
  A run of calls \<^verbatim>\<open>log_sync(msg, lvl)\<close>, and the entries such a run creates when it starts
  at the \<open>t\<close>-th reading of the clock, oldest first.
\<close>

fun log_all :: "config \<Rightarrow> state \<Rightarrow> (string \<times> string) list \<Rightarrow> state" where
  "log_all cfg st [] = st"
| "log_all cfg st ((msg, lvl) # calls) = log_all cfg (log_sync cfg st msg lvl) calls"

fun entries :: "config \<Rightarrow> nat \<Rightarrow> (string \<times> string) list \<Rightarrow> log_entry list" where
  "entries cfg t [] = []"
| "entries cfg t ((msg, lvl) # calls) =
     \<lparr>timestamp = now cfg t, level = lvl, message = msg\<rparr> # entries cfg (Suc t) calls"


text \<open>
  A sample engine: a clock whose \<open>n\<close>-th reading is \<open>n\<close> seconds past noon (for the
  first hundred readings), every path writable, and a cloud URL; the digest function is
  left open. \<open>length_digest\<close> is a stand-in
  digest that tells texts of different lengths apart. \<open>offline_cfg\<close> is the sample engine
  without a cloud URL, \<open>readonly_cfg\<close> the sample engine in a directory where no file can
  be opened for writing.
\<close>

definition length_digest :: "string \<Rightarrow> 256 word" where
  "length_digest s = of_nat (length s)"

definition demo_now :: "nat \<Rightarrow> string" where
  "demo_now n = ''2024-06-01T12:00:'' @ [hex_digit (n div 10), hex_digit (n mod 10)]"

definition demo_cfg :: "(string \<Rightarrow> 256 word) \<Rightarrow> config" where
  "demo_cfg h =
     \<lparr>local_dir = ''data/profiles'', cloud_url = Some ''https://cloud.example'',
      sha256 = h, now = demo_now, write_error = (\<lambda>_. None)\<rparr>"

definition offline_cfg :: config where
  "offline_cfg = (demo_cfg length_digest)\<lparr>cloud_url := None\<rparr>"

definition readonly_cfg :: config where
  "readonly_cfg =
     (demo_cfg length_digest)\<lparr>write_error := (\<lambda>_. Some ''[Errno 13] Permission denied'')\<rparr>"

definition hero :: profile where
  "hero = [(''name'', JStr ''Aria''), (''level'', JInt 3)]"

definition demo_files :: "string \<rightharpoonup> file_content" where
  "demo_files = [''data/profiles/hero.json'' \<mapsto> Content hero]"

text \<open>
  A profile directory whose only file holds the empty document, and the sample profile
  as the sample engine's first push leaves it.
\<close>

definition empty_files :: "string \<rightharpoonup> file_content" where
  "empty_files = [''data/profiles/hero.json'' \<mapsto> Content []]"

definition stamped_hero :: profile where
  "stamped_hero =
     [(''name'', JStr ''Aria''), (''level'', JInt 3),
      (''last_cloud_sync'', JStr ''2024-06-01T12:00:00'')]"



text \<open>A local and a cloud copy of one profile that have drifted apart.\<close>

definition local_doc :: profile where
  "local_doc =
     [(''name'', JStr ''Aria''), (''stats'', JObj [(''str'', JInt 1), (''dex'', JInt 2)]),
      (''last_sync'', JStr ''2024-01-01T00:00:00'')]"

definition cloud_doc :: profile where
  "cloud_doc =
     [(''stats'', JObj [(''str'', JInt 5)]), (''gold'', JInt 7),
      (''last_cloud_sync'', JStr ''2024-06-01T00:00:00'')]"

section \<open>The digest\<close>

text \<open>\<^verbatim>\<open>hexdigest()\<close> loses nothing: equal texts come from equal digests.\<close>

lemma hex_digit_inj: "m < 16 \<Longrightarrow> n < 16 \<Longrightarrow> hex_digit m = hex_digit n \<Longrightarrow> m = n"
proof -
  assume m: "m < 16" and n: "n < 16" and eq: "hex_digit m = hex_digit n"
  have d: "distinct ''0123456789abcdef''"
    by simp
  have l: "length ''0123456789abcdef'' = 16"
    by simp
  from eq have "''0123456789abcdef'' ! m = ''0123456789abcdef'' ! n"
    using m n by (simp add: hex_digit_def)
  then show "m = n"
    using nth_eq_iff_index_eq [OF d, of m n] m n l by simp
qed

lemma nibble_eq_take_bit: "unat (drop_bit k w AND 15) = unat (take_bit 4 (drop_bit k w))"
  for w :: "256 word"
proof -
  have "(15 :: 256 word) = mask 4"
    by (simp add: mask_eq_exp_minus_1)
  then show ?thesis
    by (simp add: take_bit_eq_mask)
qed

lemma nibble_less: "unat (drop_bit k w AND 15) < 16" for w :: "256 word"
proof -
  have "unat (take_bit 4 (drop_bit k w)) < 2 ^ 4"
    unfolding unsigned_take_bit_eq by (rule take_bit_nat_less_exp)
  then show ?thesis
    by (simp add: nibble_eq_take_bit)
qed

lemma hexdigest_inj: "hexdigest a = hexdigest b \<Longrightarrow> a = b"
proof (rule bit_word_eqI)
  fix n
  assume eq: "hexdigest a = hexdigest b" and n: "n < LENGTH(256)"
  define k where "k = n div 4"
  define j where "j = n mod 4"
  have k: "k < 64" and j: "j < 4" and nkj: "n = 4 * k + j"
    using n by (simp_all add: k_def j_def)
  have i: "63 - k \<in> set [0..<64]" and ki: "4 * (63 - (63 - k)) = 4 * k"
    using k by simp_all
  from eq have "\<forall>i\<in>set [0..<64]. hex_digit (unat (drop_bit (4 * (63 - i)) a AND 15)) =
      hex_digit (unat (drop_bit (4 * (63 - i)) b AND 15))"
    unfolding hexdigest_def by (simp only: map_eq_conv)
  with i have "hex_digit (unat (drop_bit (4 * (63 - (63 - k))) a AND 15)) =
      hex_digit (unat (drop_bit (4 * (63 - (63 - k))) b AND 15))"
    by blast
  then have "hex_digit (unat (drop_bit (4 * k) a AND 15)) = hex_digit (unat (drop_bit (4 * k) b AND 15))"
    by (simp only: ki)
  then have "unat (drop_bit (4 * k) a AND 15) = unat (drop_bit (4 * k) b AND 15)"
    by (rule hex_digit_inj [OF nibble_less nibble_less])
  then have "take_bit 4 (drop_bit (4 * k) a) = take_bit 4 (drop_bit (4 * k) b)"
    by (simp add: nibble_eq_take_bit word_unat_eq_iff)
  then have "bit (take_bit 4 (drop_bit (4 * k) a)) j = bit (take_bit 4 (drop_bit (4 * k) b)) j"
    by simp
  then show "bit a n = bit b n"
    using j by (simp add: bit_take_bit_iff bit_drop_bit_eq nkj)
qed

lemma get_profile_hash_eq_iff:
  "get_profile_hash cfg p = get_profile_hash cfg q \<longleftrightarrow>
   sha256 cfg (dumps (JObj p)) = sha256 cfg (dumps (JObj q))"
  by (auto simp: get_profile_hash_def dest: hexdigest_inj)

lemma length_hexdigest: "length (hexdigest w) = 64"
  by (simp add: hexdigest_def)

section \<open>The canonical serialization\<close>

text \<open>
  A document with nested containers, a negative number and characters that need
  escaping, and the text \<^verbatim>\<open>json.dumps(..., sort_keys=True)\<close> gives for it.
\<close>

lemma dumps_example:
  \<open>dumps (JObj [(''b'', JInt (- 120)),
                 (''a'', JList [JNull, JBool True, JStr [CHR ''x'', CHR 0x22, CHR ''y'', CHR 0x7F]]),
                 (''c'', JObj [])]) =
    ''{"a": [null, true, "x'' @ [CHR 0x5C, CHR 0x22] @ ''y'' @ [CHR 0x5C] @ ''u007f"], "b": -120, "c": {}}''\<close>
  by code_simp

text \<open>
  Sorting the items by key and serializing the values can be done in either order, so
  \<open>dumps\<close> writes what the encoder writes.
\<close>

lemma insort_key_map_values:
  "insort_key fst (k, g v) (map (\<lambda>(k, v). (k, g v)) kvs) =
   map (\<lambda>(k, v). (k, g v)) (insort_key fst (k, v) kvs)"
  by (induction kvs) (auto simp: case_prod_beta)

lemma sort_key_map_values:
  "sort_key fst (map (\<lambda>(k, v). (k, g v)) kvs) = map (\<lambda>(k, v). (k, g v)) (sort_key fst kvs)"
proof (induction kvs)
  case Nil
  then show ?case by simp
next
  case (Cons p kvs)
  obtain k v where p: "p = (k, v)" by (cases p)
  show ?case
    by (simp add: p Cons.IH insort_key_map_values)
qed





text \<open>The sample profile, unstamped and stamped: the two canonical serializations.\<close>

lemma dumps_hero: \<open>dumps (JObj hero) = ''{"level": 3, "name": "Aria"}''\<close>
  unfolding hero_def by code_simp

lemma dumps_stamped_hero:
  \<open>dumps (JObj stamped_hero) =
    ''{"last_cloud_sync": "2024-06-01T12:00:00", "level": 3, "name": "Aria"}''\<close>
  unfolding stamped_hero_def by code_simp

lemma length_digest_neq: "length s < 2 ^ 256 \<Longrightarrow> length t < 2 ^ 256 \<Longrightarrow> length s \<noteq> length t \<Longrightarrow>
    length_digest s \<noteq> length_digest t"
  by (simp add: length_digest_def word_of_nat_eq_iff take_bit_nat_eq_self)



section \<open>The operation log\<close>

lemma slice_from_neg: "0 < n \<Longrightarrow> slice_from xs (- int n) = drop (length xs - n) xs"
  by (simp add: slice_from_def nat_diff_distrib')

lemma slice_from_zero: "slice_from xs 0 = xs"
  by (simp add: slice_from_def)

lemma sync_log_log_sync:
  "sync_log (log_sync cfg st msg lvl) =
     drop (Suc (length (sync_log st)) - 100)
       (sync_log st @ [\<lparr>timestamp = now cfg (clock st), level = lvl, message = msg\<rparr>])"
proof -
  have "slice_from xs (- 100) = drop (length xs - 100) xs" for xs :: "log_entry list"
    using slice_from_neg [of 100 xs] by simp
  then show ?thesis
    by (simp add: log_sync_def Let_def)
qed

lemma clock_log_sync: "clock (log_sync cfg st msg lvl) = Suc (clock st)"
  by (simp add: log_sync_def Let_def)

lemma files_log_sync: "files (log_sync cfg st msg lvl) = files st"
  by (simp add: log_sync_def Let_def)

lemma length_log_sync: "length (sync_log (log_sync cfg st msg lvl)) \<le> 100"
  by (simp add: sync_log_log_sync)

lemma length_entries: "length (entries cfg t calls) = length calls"
  by (induction calls arbitrary: t) auto

text \<open>
  A run of calls leaves the last 100 of the entries the log held and the run created.
\<close>

lemma sync_log_log_all:
  "length (sync_log st) \<le> 100 \<Longrightarrow>
   sync_log (log_all cfg st calls) =
     drop (length (sync_log st) + length calls - 100) (sync_log st @ entries cfg (clock st) calls)"
proof (induction calls arbitrary: st)
  case Nil
  then show ?case by simp
next
  case (Cons c calls)
  obtain msg lvl where c: "c = (msg, lvl)" by (cases c)
  let ?e = "\<lparr>timestamp = now cfg (clock st), level = lvl, message = msg\<rparr>"
  let ?st = "log_sync cfg st msg lvl"
  let ?b = "Suc (length (sync_log st)) - 100"
  let ?all = "sync_log st @ entries cfg (clock st) (c # calls)"
  have log': "sync_log ?st = drop ?b (sync_log st @ [?e])"
    by (rule sync_log_log_sync)
  have len': "length (sync_log ?st) = Suc (length (sync_log st)) - ?b"
    by (simp add: log')
  have "sync_log (log_all cfg st (c # calls)) = sync_log (log_all cfg ?st calls)"
    by (simp add: c)
  also have "\<dots> = drop (length (sync_log ?st) + length calls - 100)
      (sync_log ?st @ entries cfg (clock ?st) calls)"
    by (rule Cons.IH) (rule length_log_sync)
  also have "sync_log ?st @ entries cfg (clock ?st) calls = drop ?b ?all"
    using Cons.prems by (simp add: log' c clock_log_sync)
  also have "drop (length (sync_log ?st) + length calls - 100) (drop ?b ?all)
     = drop (length (sync_log st) + length (c # calls) - 100) ?all"
  proof -
    have "length (sync_log ?st) + length calls - 100 + ?b =
        length (sync_log st) + length (c # calls) - 100"
      using Cons.prems by (simp add: len')
    then show ?thesis
      by (simp only: drop_drop)
  qed
  finally show ?case .
qed

text \<open>Every operation of the engine keeps the log within 100 entries.\<close>

lemma log_le_load_local:
  "length (sync_log st) \<le> 100 \<Longrightarrow>
   length (sync_log (snd (load_local_profile cfg st profile_id))) \<le> 100"
  by (simp add: load_local_profile_def length_log_sync split: option.splits file_content.splits)

lemma log_le_fetch_cloud:
  "length (sync_log st) \<le> 100 \<Longrightarrow>
   length (sync_log (snd (fetch_cloud_profile cfg st profile_id))) \<le> 100"
  by (simp add: fetch_cloud_profile_def length_log_sync split: option.splits file_content.splits)

lemma log_le_save_local:
  "length (sync_log (snd (snd (save_local_profile cfg st profile_id d)))) \<le> 100"
  by (simp add: save_local_profile_def Let_def length_log_sync split: option.splits)

lemma log_le_push_cloud:
  "length (sync_log st) \<le> 100 \<Longrightarrow>
   length (sync_log (snd (snd (push_cloud_profile cfg st profile_id d)))) \<le> 100"
  by (simp add: push_cloud_profile_def Let_def length_log_sync split: option.splits)

lemma log_le_resolve_conflict:
  "length (sync_log st) \<le> 100 \<Longrightarrow>
   length (sync_log (snd (resolve_conflict cfg st l c strat))) \<le> 100"
  by (simp add: resolve_conflict_def Let_def length_log_sync split: sum.splits)

lemma log_le_sync_profile:
  assumes "length (sync_log st) \<le> 100"
  shows "length (sync_log (snd (sync_profile cfg st profile_id strat))) \<le> 100"
proof -
  let ?st1 = "snd (load_local_profile cfg st profile_id)"
  let ?st2 = "snd (fetch_cloud_profile cfg ?st1 profile_id)"
  have 2: "length (sync_log ?st2) \<le> 100"
    by (intro log_le_fetch_cloud log_le_load_local assms)
  note facts = 2 log_le_push_cloud [OF 2] log_le_save_local
    log_le_push_cloud [OF log_le_save_local] log_le_resolve_conflict [OF 2]
  show ?thesis
    by (simp add: sync_profile_def Let_def case_prod_beta facts split: sum.splits)
qed

text \<open>
  C8. The log never holds more than 100 entries: a call of \<^verbatim>\<open>log_sync\<close> appends its entry
  and keeps the last 100 of the result, dropping the oldest first, and a whole
  \<^verbatim>\<open>sync_profile\<close> leaves a log of at most 100 entries. After 150 calls that log, made on a
  fresh engine, \<^verbatim>\<open>get_sync_log(1000)\<close> returns 100 entries: the entries of the last 100
  calls, oldest first.
\<close>

theorem log_capped:
  "length (sync_log (log_sync cfg st msg lvl)) \<le> 100 \<and>
   sync_log (log_sync cfg st msg lvl) =
     drop (Suc (length (sync_log st)) - 100)
       (sync_log st @ [\<lparr>timestamp = now cfg (clock st), level = lvl, message = msg\<rparr>]) \<and>
   (length (sync_log st) \<le> 100 \<longrightarrow>
      length (sync_log (snd (sync_profile cfg st profile_id strat))) \<le> 100) \<and>
   (length calls = 150 \<longrightarrow>
      length (get_sync_log (log_all cfg (init fs) calls) 1000) = 100 \<and>
      get_sync_log (log_all cfg (init fs) calls) 1000 = drop 50 (entries cfg 0 calls))"
proof -
  have "get_sync_log (log_all cfg (init fs) calls) 1000 = drop 50 (entries cfg 0 calls)"
    if "length calls = 150"
  proof -
    have "sync_log (log_all cfg (init fs) calls) = drop 50 (entries cfg 0 calls)"
      using sync_log_log_all [of "init fs" cfg calls] that by (simp add: init_def)
    moreover have "get_sync_log s 1000 = drop (length (sync_log s) - 1000) (sync_log s)" for s
      using slice_from_neg [of 1000 "sync_log s"] by (simp add: get_sync_log_def)
    ultimately show ?thesis
      using that by (simp add: length_entries)
  qed
  then show ?thesis
    using log_le_sync_profile [of st cfg profile_id strat]
    by (simp add: length_log_sync sync_log_log_sync length_entries)
qed

theorem log_capped_witness:
  "length (sync_log (init demo_files)) \<le> 100 \<and>
   length (replicate 150 (''Saved local profile hero'', ''success'')) = 150 \<and>
   length (sync_log (snd (sync_profile (demo_cfg length_digest) (init demo_files) ''hero'' ''newest''))) \<le> 100 \<and>
   length (get_sync_log (log_all (demo_cfg length_digest) (init demo_files)
      (replicate 150 (''Saved local profile hero'', ''success''))) 1000) = 100 \<and>
   get_sync_log (log_all (demo_cfg length_digest) (init demo_files)
      (replicate 150 (''Saved local profile hero'', ''success''))) 1000 =
     drop 50 (entries (demo_cfg length_digest) 0 (replicate 150 (''Saved local profile hero'', ''success'')))"
proof -
  have small: "length (sync_log (init demo_files)) \<le> 100"
    by (simp add: init_def)
  have many: "length (replicate 150 (''Saved local profile hero'', ''success'')) = 150"
    by simp
  from small many
    log_capped [of "demo_cfg length_digest" "init demo_files" "''x''" "''info''" "''hero''" "''newest''"
      "replicate 150 (''Saved local profile hero'', ''success'')" demo_files]
  show ?thesis by blast
qed

text \<open>
  C10. \<^verbatim>\<open>get_sync_log(0)\<close> returns the whole stored log, not an empty list; for a limit
  above 0 it returns the last min(limit, length of the log) entries of the log, in the
  log's order (oldest first).
\<close>

theorem get_sync_log_limit:
  "get_sync_log st 0 = sync_log st \<and>
   (0 < limit \<longrightarrow>
      get_sync_log st limit = drop (length (sync_log st) - nat limit) (sync_log st) \<and>
      length (get_sync_log st limit) = min (nat limit) (length (sync_log st)))"
proof -
  have "get_sync_log st limit = drop (length (sync_log st) - nat limit) (sync_log st)"
    if "0 < limit"
    using that slice_from_neg [of "nat limit" "sync_log st"] by (simp add: get_sync_log_def)
  then show ?thesis
    by (auto simp add: get_sync_log_def slice_from_zero)
qed

theorem get_sync_log_limit_witness:
  "(0::int) < 2 \<and>
   get_sync_log (log_all (demo_cfg length_digest) (init demo_files)
      [(''a'', ''info''), (''b'', ''success''), (''c'', ''error'')]) 0 =
     entries (demo_cfg length_digest) 0 [(''a'', ''info''), (''b'', ''success''), (''c'', ''error'')] \<and>
   get_sync_log (log_all (demo_cfg length_digest) (init demo_files)
      [(''a'', ''info''), (''b'', ''success''), (''c'', ''error'')]) 2 =
     entries (demo_cfg length_digest) 1 [(''b'', ''success''), (''c'', ''error'')]"
proof -
  let ?calls = "[(''a'', ''info''), (''b'', ''success''), (''c'', ''error'')]"
  let ?st = "log_all (demo_cfg length_digest) (init demo_files) ?calls"
  have pos: "(0::int) < 2"
    by simp
  have log: "sync_log ?st = entries (demo_cfg length_digest) 0 ?calls"
    using sync_log_log_all [of "init demo_files" "demo_cfg length_digest" ?calls]
    by (simp add: init_def)
  have "get_sync_log ?st 0 = sync_log ?st"
    and "get_sync_log ?st 2 = drop (length (sync_log ?st) - nat 2) (sync_log ?st)"
    using get_sync_log_limit [of ?st 2] pos by blast+
  then show ?thesis
    by (simp add: log del: log_all.simps)
qed

section \<open>Dicts\<close>

lemma dict_get_dict_set:
  "dict_get (dict_set d k v) k' = (if k' = k then Some v else dict_get d k')"
  by (induction d k v rule: dict_set.induct) (auto simp: dict_get_def)

lemma dict_get_Cons: "dict_get ((k, v) # d) k' = (if k' = k then Some v else dict_get d k')"
  by (simp add: dict_get_def)

lemma keys_dict_set: "fst ` set (dict_set d k v) = insert k (fst ` set d)"
  by (induction d k v rule: dict_set.induct) auto

lemma distinct_dict_set: "distinct (map fst d) \<Longrightarrow> distinct (map fst (dict_set d k v))"
  by (induction d k v rule: dict_set.induct) (auto simp: keys_dict_set)

lemma dict_union_Nil: "dict_union a [] = a"
  by (simp add: dict_union_def)

lemma dict_union_Cons: "dict_union a ((k, v) # b) = dict_union (dict_set a k v) b"
  by (simp add: dict_union_def)

lemma keys_dict_union: "fst ` set (dict_union a b) = fst ` set a \<union> fst ` set b"
proof (induction b arbitrary: a)
  case Nil
  then show ?case by (simp add: dict_union_Nil)
next
  case (Cons p b)
  obtain k v where p: "p = (k, v)" by (cases p)
  show ?case
    by (simp add: p dict_union_Cons Cons.IH keys_dict_set)
qed

lemma distinct_dict_union: "distinct (map fst a) \<Longrightarrow> distinct (map fst (dict_union a b))"
proof (induction b arbitrary: a)
  case Nil
  then show ?case by (simp add: dict_union_Nil)
next
  case (Cons p b)
  obtain k v where p: "p = (k, v)" by (cases p)
  show ?case
    using Cons.prems by (simp add: p dict_union_Cons Cons.IH distinct_dict_set)
qed

lemma dict_get_dict_union:
  "distinct (map fst b) \<Longrightarrow>
   dict_get (dict_union a b) x = (case dict_get b x of Some v \<Rightarrow> Some v | None \<Rightarrow> dict_get a x)"
proof (induction b arbitrary: a)
  case Nil
  then show ?case by (simp add: dict_union_Nil dict_get_def)
next
  case (Cons p b)
  obtain k v where p: "p = (k, v)" by (cases p)
  from Cons.prems have k: "dict_get b k = None" and d: "distinct (map fst b)"
    by (auto simp: p dict_get_def map_of_eq_None_iff)
  have "dict_get (dict_union a (p # b)) x =
      (case dict_get b x of Some v \<Rightarrow> Some v | None \<Rightarrow> dict_get (dict_set a k v) x)"
    by (simp add: p dict_union_Cons Cons.IH [OF d])
  also have "\<dots> = (case dict_get (p # b) x of Some v \<Rightarrow> Some v | None \<Rightarrow> dict_get a x)"
    using k by (cases "x = k") (simp_all add: p dict_get_dict_set dict_get_Cons split: option.splits)
  finally show ?case .
qed

section \<open>The resolution policy\<close>

text \<open>
  C3. On two documents whose \<^verbatim>\<open>last_sync\<close> (local) and \<^verbatim>\<open>last_cloud_sync\<close> (cloud) are
  strings or absent, the strategy \<^verbatim>\<open>newest\<close> compares the two strings, with
  \<^verbatim>\<open>1970-01-01T00:00:00\<close> for an absent one, and returns the whole local document when
  the local string is the greater and the whole cloud document otherwise. With a local
  \<^verbatim>\<open>2024-01-01T00:00:00\<close> and a cloud \<^verbatim>\<open>2024-06-01T00:00:00\<close> it returns the cloud document.
\<close>

theorem newest_compares_stamps:
  assumes "(dict_get l ''last_sync'' = None \<and> lt = ''1970-01-01T00:00:00'') \<or>
           dict_get l ''last_sync'' = Some (JStr lt)"
    and "(dict_get c ''last_cloud_sync'' = None \<and> ct = ''1970-01-01T00:00:00'') \<or>
           dict_get c ''last_cloud_sync'' = Some (JStr ct)"
  shows "fst (resolve_conflict cfg st l c ''newest'') = Inr (if lt > ct then l else c) \<and>
    (lt = ''2024-01-01T00:00:00'' \<and> ct = ''2024-06-01T00:00:00'' \<longrightarrow>
       fst (resolve_conflict cfg st l c ''newest'') = Inr c)"
proof -
  have l: "dict_get_default l ''last_sync'' (JStr ''1970-01-01T00:00:00'') = JStr lt"
    using assms(1) by (auto simp: dict_get_default_def dict_get_def)
  have c: "dict_get_default c ''last_cloud_sync'' (JStr ''1970-01-01T00:00:00'') = JStr ct"
    using assms(2) by (auto simp: dict_get_default_def dict_get_def)
  have r: "fst (resolve_conflict cfg st l c ''newest'') = Inr (if lt > ct then l else c)"
    by (simp add: resolve_conflict_def l c)
  have "\<not> (''2024-01-01T00:00:00'' :: string) > ''2024-06-01T00:00:00''"
    by simp
  with r show ?thesis
    by auto
qed

theorem newest_compares_stamps_witness:
  "dict_get local_doc ''last_sync'' = Some (JStr ''2024-01-01T00:00:00'') \<and>
   dict_get cloud_doc ''last_cloud_sync'' = Some (JStr ''2024-06-01T00:00:00'') \<and>
   dict_get cloud_doc ''last_sync'' = None \<and>
   fst (resolve_conflict (demo_cfg length_digest) (init demo_files) local_doc cloud_doc ''newest'') = Inr cloud_doc \<and>
   fst (resolve_conflict (demo_cfg length_digest) (init demo_files) cloud_doc cloud_doc ''newest'') = Inr cloud_doc"
proof -
  have l: "dict_get local_doc ''last_sync'' = Some (JStr ''2024-01-01T00:00:00'')"
    by (simp add: dict_get_def local_doc_def)
  have c: "dict_get cloud_doc ''last_cloud_sync'' = Some (JStr ''2024-06-01T00:00:00'')"
    by (simp add: dict_get_def cloud_doc_def)
  have n: "dict_get cloud_doc ''last_sync'' = None"
    by (simp add: dict_get_def cloud_doc_def)
  have "fst (resolve_conflict (demo_cfg length_digest) (init demo_files) local_doc cloud_doc ''newest'') = Inr cloud_doc"
    using newest_compares_stamps [of local_doc "''2024-01-01T00:00:00''" cloud_doc "''2024-06-01T00:00:00''"] l c
    by blast
  moreover have "fst (resolve_conflict (demo_cfg length_digest) (init demo_files) cloud_doc cloud_doc ''newest'') = Inr cloud_doc"
    using newest_compares_stamps [of cloud_doc "''1970-01-01T00:00:00''" cloud_doc "''2024-06-01T00:00:00''"] n c
    by simp
  ultimately show ?thesis
    using l c n by blast
qed

text \<open>
  C6. The strategy \<^verbatim>\<open>merge\<close> returns the union of the two documents by key: its keys are
  the keys of either document, each once, and the value under a key is the cloud
  document's value whenever the cloud document has the key (the whole value, whatever
  the local one was) and the local document's value otherwise.
\<close>

theorem merge_is_shallow_union:
  assumes "distinct (map fst l)" and "distinct (map fst c)"
  shows "fst (resolve_conflict cfg st l c ''merge'') = Inr (dict_union l c) \<and>
    distinct (map fst (dict_union l c)) \<and>
    set (map fst (dict_union l c)) = set (map fst l) \<union> set (map fst c) \<and>
    (\<forall>k. dict_get (dict_union l c) k =
       (case dict_get c k of Some v \<Rightarrow> Some v | None \<Rightarrow> dict_get l k))"
proof -
  have "dict_get (dict_union l c) k = (case dict_get c k of Some v \<Rightarrow> Some v | None \<Rightarrow> dict_get l k)" for k
    by (rule dict_get_dict_union [OF assms(2)])
  then show ?thesis
    using assms by (simp add: resolve_conflict_def keys_dict_union distinct_dict_union)
qed

theorem merge_is_shallow_union_witness:
  "distinct (map fst local_doc) \<and> distinct (map fst cloud_doc) \<and>
   fst (resolve_conflict (demo_cfg length_digest) (init demo_files) local_doc cloud_doc ''merge'') =
     Inr [(''name'', JStr ''Aria''), (''stats'', JObj [(''str'', JInt 5)]),
          (''last_sync'', JStr ''2024-01-01T00:00:00''), (''gold'', JInt 7),
          (''last_cloud_sync'', JStr ''2024-06-01T00:00:00'')] \<and>
   dict_get (dict_union local_doc cloud_doc) ''stats'' = Some (JObj [(''str'', JInt 5)])"
proof -
  have l: "distinct (map fst local_doc)" and c: "distinct (map fst cloud_doc)"
    by (simp_all add: local_doc_def cloud_doc_def)
  have u: "dict_union local_doc cloud_doc =
     [(''name'', JStr ''Aria''), (''stats'', JObj [(''str'', JInt 5)]),
          (''last_sync'', JStr ''2024-01-01T00:00:00''), (''gold'', JInt 7),
          (''last_cloud_sync'', JStr ''2024-06-01T00:00:00'')]"
    by (simp add: local_doc_def cloud_doc_def dict_union_def)
  have s: "dict_get cloud_doc ''stats'' = Some (JObj [(''str'', JInt 5)])"
    by (simp add: cloud_doc_def dict_get_def)
  from merge_is_shallow_union [OF l c, of "demo_cfg length_digest" "init demo_files"]
  have "fst (resolve_conflict (demo_cfg length_digest) (init demo_files) local_doc cloud_doc ''merge'') =
      Inr (dict_union local_doc cloud_doc)"
    and "dict_get (dict_union local_doc cloud_doc) ''stats'' =
      (case dict_get cloud_doc ''stats'' of Some v \<Rightarrow> Some v | None \<Rightarrow> dict_get local_doc ''stats'')"
    by blast+
  then show ?thesis
    using l c by (simp add: u s)
qed

text \<open>Each of the strategies \<^verbatim>\<open>local\<close>, \<^verbatim>\<open>cloud\<close> and \<^verbatim>\<open>merge\<close> writes one log entry.\<close>

lemma named_strategies_logged:
  "snd (resolve_conflict cfg st l c ''local'') =
     log_sync cfg st ''Conflict resolved using local version'' ''info''"
  "snd (resolve_conflict cfg st l c ''cloud'') =
     log_sync cfg st ''Conflict resolved using cloud version'' ''info''"
  "snd (resolve_conflict cfg st l c ''merge'') =
     log_sync cfg st ''Conflict resolved using merge strategy'' ''info''"
  by (simp_all add: resolve_conflict_def)

text \<open>A time stamp that is a number on one side and a string on the other raises.\<close>

lemma newest_raises_on_mixed_stamps:
  "dict_get l ''last_sync'' = Some (JInt n) \<Longrightarrow> dict_get c ''last_cloud_sync'' = Some (JStr t) \<Longrightarrow>
   resolve_conflict cfg st l c ''newest'' = (Inl TypeError, st)"
  by (simp add: resolve_conflict_def dict_get_default_def dict_get_def)

text \<open>
  C7. A strategy name other than \<^verbatim>\<open>newest\<close>, \<^verbatim>\<open>local\<close>, \<^verbatim>\<open>cloud\<close> and \<^verbatim>\<open>merge\<close> raises
  nothing and returns the local document as it is; the engine's state, and so its log,
  stays as it was: this path writes no log entry, where each of the four named
  strategies writes one.
\<close>

theorem unknown_strategy_not_logged:
  "strat \<notin> {''newest'', ''local'', ''cloud'', ''merge''} \<Longrightarrow>
   resolve_conflict cfg st l c strat = (Inr l, st)"
  by (simp add: resolve_conflict_def)

theorem unknown_strategy_not_logged_witness:
  "''latest'' \<notin> {''newest'', ''local'', ''cloud'', ''merge''} \<and>
   resolve_conflict (demo_cfg length_digest) (init demo_files) local_doc cloud_doc ''latest'' =
     (Inr local_doc, init demo_files) \<and>
   sync_log (snd (resolve_conflict (demo_cfg length_digest) (init demo_files) local_doc cloud_doc ''latest'')) = []"
proof -
  have s: "''latest'' \<notin> {''newest'', ''local'', ''cloud'', ''merge''}"
    by simp
  from unknown_strategy_not_logged [OF s] show ?thesis
    using s by (simp add: init_def)
qed


section \<open>Reconciliation\<close>

text \<open>What the four file operations return, case by case.\<close>

lemma load_local_content:
  "files st (local_path cfg profile_id) = Some (Content l) \<Longrightarrow>
   load_local_profile cfg st profile_id = (Some l, st)"
  by (simp add: load_local_profile_def)

lemma load_local_absent:
  "files st (local_path cfg profile_id) = None \<Longrightarrow>
   load_local_profile cfg st profile_id = (None, st)"
  by (simp add: load_local_profile_def)

lemma fetch_no_cloud: "no_cloud cfg \<Longrightarrow> fetch_cloud_profile cfg st profile_id = (None, st)"
  by (simp add: fetch_cloud_profile_def)

lemma fetch_absent:
  "files st (cloud_path cfg profile_id) = None \<Longrightarrow>
   fetch_cloud_profile cfg st profile_id = (None, st)"
  by (simp add: fetch_cloud_profile_def)

lemma push_no_cloud: "no_cloud cfg \<Longrightarrow> push_cloud_profile cfg st profile_id d = (False, d, st)"
  by (simp add: push_cloud_profile_def)

lemma push_written:
  "\<not> no_cloud cfg \<Longrightarrow> write_error cfg (cloud_path cfg profile_id) = None \<Longrightarrow>
   push_cloud_profile cfg st profile_id d =
     (True, dict_set d ''last_cloud_sync'' (JStr (now cfg (clock st))),
      log_sync cfg
        (st\<lparr>clock := clock st + 1,
            files := (files st)(cloud_path cfg profile_id \<mapsto>
              Content (dict_set d ''last_cloud_sync'' (JStr (now cfg (clock st)))))\<rparr>)
        (''Pushed cloud profile '' @ profile_id) ''success'')"
  by (simp add: push_cloud_profile_def Let_def)

lemma push_failed:
  "\<not> no_cloud cfg \<Longrightarrow> write_error cfg (cloud_path cfg profile_id) = Some e \<Longrightarrow>
   push_cloud_profile cfg st profile_id d =
     (False, dict_set d ''last_cloud_sync'' (JStr (now cfg (clock st))),
      log_sync cfg (st\<lparr>clock := clock st + 1\<rparr>)
        (''Error pushing cloud profile '' @ profile_id @ '': '' @ e) ''error'')"
  by (simp add: push_cloud_profile_def Let_def)

text \<open>The first and the last case of \<^verbatim>\<open>sync_profile\<close>.\<close>

lemma sync_profile_local_only:
  assumes "load_local_profile cfg st profile_id = (Some l, st1)" and "l \<noteq> []"
    and "fetch_cloud_profile cfg st1 profile_id = (cp, st2)" and "\<not> truthy cp"
    and "push_cloud_profile cfg st2 profile_id l = (ok, p, st3)"
  shows "sync_profile cfg st profile_id strat =
    (Inr \<lparr>status = ''synced'', action = ''uploaded_to_cloud'', profile = Some p, strategy = None\<rparr>, st3)"
  using assms by (simp add: sync_profile_def truthy_def)

lemma sync_profile_neither:
  assumes "load_local_profile cfg st profile_id = (lp, st1)" and "\<not> truthy lp"
    and "fetch_cloud_profile cfg st1 profile_id = (cp, st2)" and "\<not> truthy cp"
  shows "sync_profile cfg st profile_id strat =
    (Inr \<lparr>status = ''error'', action = ''profile_not_found'', profile = None, strategy = None\<rparr>, st2)"
  using assms by (simp add: sync_profile_def)

text \<open>The sample engines: their paths, their cloud settings, their clock.\<close>

lemma demo_paths:
  "local_path (demo_cfg h) ''hero'' = ''data/profiles/hero.json''"
  "cloud_path (demo_cfg h) ''hero'' = ''data/profiles/cloud_hero.json''"
  "local_path offline_cfg ''hero'' = ''data/profiles/hero.json''"
  "cloud_path offline_cfg ''hero'' = ''data/profiles/cloud_hero.json''"
  "local_path readonly_cfg ''hero'' = ''data/profiles/hero.json''"
  "cloud_path readonly_cfg ''hero'' = ''data/profiles/cloud_hero.json''"
  by (simp_all add: local_path_def cloud_path_def path_join_def demo_cfg_def offline_cfg_def
      readonly_cfg_def)

lemma demo_no_cloud:
  "\<not> no_cloud (demo_cfg h)" "no_cloud offline_cfg" "\<not> no_cloud readonly_cfg"
  by (simp_all add: no_cloud_def demo_cfg_def offline_cfg_def readonly_cfg_def)

lemma demo_now_0: "demo_now 0 = ''2024-06-01T12:00:00''"
  by (simp add: demo_now_def hex_digit_def)

text \<open>
  C9. When the local file holds a non-empty document and the fetch from the cloud
  yields nothing, \<^verbatim>\<open>sync_profile\<close> returns status \<^verbatim>\<open>synced\<close> and action
  \<^verbatim>\<open>uploaded_to_cloud\<close> whatever \<^verbatim>\<open>push_cloud_profile\<close> returns. Without a cloud URL the push
  returns \<^verbatim>\<open>False\<close> and changes nothing, so no file is written at all; with a cloud URL
  and a cloud file that cannot be opened for writing the push returns \<^verbatim>\<open>False\<close> and the
  files stay as they were. In both cases the result still reports the upload.
\<close>

theorem upload_reported_whatever_push_returns:
  assumes "files st (local_path cfg profile_id) = Some (Content l)" and "l \<noteq> []"
  shows
    "(no_cloud cfg \<longrightarrow>
        push_cloud_profile cfg st profile_id l = (False, l, st) \<and>
        sync_profile cfg st profile_id strat =
          (Inr \<lparr>status = ''synced'', action = ''uploaded_to_cloud'', profile = Some l,
                strategy = None\<rparr>, st)) \<and>
     (\<not> truthy (fst (fetch_cloud_profile cfg st profile_id)) \<longrightarrow>
        (case push_cloud_profile cfg (snd (fetch_cloud_profile cfg st profile_id)) profile_id l of
           (ok, p, st') \<Rightarrow>
             sync_profile cfg st profile_id strat =
               (Inr \<lparr>status = ''synced'', action = ''uploaded_to_cloud'', profile = Some p,
                     strategy = None\<rparr>, st'))) \<and>
     (\<not> no_cloud cfg \<and> files st (cloud_path cfg profile_id) = None \<and>
      write_error cfg (cloud_path cfg profile_id) = Some e \<longrightarrow>
        fst (push_cloud_profile cfg st profile_id l) = False \<and>
        files (snd (sync_profile cfg st profile_id strat)) = files st \<and>
        fst (sync_profile cfg st profile_id strat) =
          Inr \<lparr>status = ''synced'', action = ''uploaded_to_cloud'',
               profile = Some (dict_set l ''last_cloud_sync'' (JStr (now cfg (clock st)))),
               strategy = None\<rparr>)"
proof (intro conjI impI)
  note load = load_local_content [OF assms(1)]
  {
    assume n: "no_cloud cfg"
    show "push_cloud_profile cfg st profile_id l = (False, l, st)"
      by (rule push_no_cloud [OF n])
    show "sync_profile cfg st profile_id strat =
          (Inr \<lparr>status = ''synced'', action = ''uploaded_to_cloud'', profile = Some l,
                strategy = None\<rparr>, st)"
      by (rule sync_profile_local_only [OF load assms(2) fetch_no_cloud [OF n] _ push_no_cloud [OF n]])
        (simp add: truthy_def)
  }
  {
    assume f: "\<not> truthy (fst (fetch_cloud_profile cfg st profile_id))"
    obtain cp st2 where c: "fetch_cloud_profile cfg st profile_id = (cp, st2)"
      by (cases "fetch_cloud_profile cfg st profile_id")
    obtain ok p st3 where u: "push_cloud_profile cfg st2 profile_id l = (ok, p, st3)"
      by (cases "push_cloud_profile cfg st2 profile_id l")
    from f have "\<not> truthy cp" by (simp add: c)
    from sync_profile_local_only [OF load assms(2) c this u]
    show "case push_cloud_profile cfg (snd (fetch_cloud_profile cfg st profile_id)) profile_id l of
           (ok, p, st') \<Rightarrow>
             sync_profile cfg st profile_id strat =
               (Inr \<lparr>status = ''synced'', action = ''uploaded_to_cloud'', profile = Some p,
                     strategy = None\<rparr>, st')"
      by (simp add: c u)
  }
  {
    assume a: "\<not> no_cloud cfg \<and> files st (cloud_path cfg profile_id) = None \<and>
      write_error cfg (cloud_path cfg profile_id) = Some e"
    then have n: "\<not> no_cloud cfg" and c: "files st (cloud_path cfg profile_id) = None"
      and w: "write_error cfg (cloud_path cfg profile_id) = Some e"
      by simp_all
    note push = push_failed [OF n w, of st l]
    have s: "sync_profile cfg st profile_id strat =
      (Inr \<lparr>status = ''synced'', action = ''uploaded_to_cloud'',
            profile = Some (dict_set l ''last_cloud_sync'' (JStr (now cfg (clock st)))),
            strategy = None\<rparr>,
       log_sync cfg (st\<lparr>clock := clock st + 1\<rparr>)
        (''Error pushing cloud profile '' @ profile_id @ '': '' @ e) ''error'')"
      by (rule sync_profile_local_only [OF load assms(2) fetch_absent [OF c] _ push])
        (simp add: truthy_def)
    show "fst (push_cloud_profile cfg st profile_id l) = False"
      by (simp add: push)
    show "files (snd (sync_profile cfg st profile_id strat)) = files st"
      by (simp add: s files_log_sync)
    show "fst (sync_profile cfg st profile_id strat) =
          Inr \<lparr>status = ''synced'', action = ''uploaded_to_cloud'',
               profile = Some (dict_set l ''last_cloud_sync'' (JStr (now cfg (clock st)))),
               strategy = None\<rparr>"
      by (simp add: s)
  }
qed

theorem upload_reported_whatever_push_returns_witness:
  "files (init demo_files) (local_path offline_cfg ''hero'') = Some (Content hero) \<and>
   hero \<noteq> [] \<and> no_cloud offline_cfg \<and>
   \<not> truthy (fst (fetch_cloud_profile offline_cfg (init demo_files) ''hero'')) \<and>
   push_cloud_profile offline_cfg (init demo_files) ''hero'' hero = (False, hero, init demo_files) \<and>
   sync_profile offline_cfg (init demo_files) ''hero'' ''newest'' =
     (Inr \<lparr>status = ''synced'', action = ''uploaded_to_cloud'', profile = Some hero,
           strategy = None\<rparr>, init demo_files) \<and>
   files (init demo_files) (local_path readonly_cfg ''hero'') = Some (Content hero) \<and>
   \<not> no_cloud readonly_cfg \<and>
   files (init demo_files) (cloud_path readonly_cfg ''hero'') = None \<and>
   write_error readonly_cfg (cloud_path readonly_cfg ''hero'') = Some ''[Errno 13] Permission denied'' \<and>
   fst (push_cloud_profile readonly_cfg (init demo_files) ''hero'' hero) = False \<and>
   files (snd (sync_profile readonly_cfg (init demo_files) ''hero'' ''newest'')) = files (init demo_files) \<and>
   fst (sync_profile readonly_cfg (init demo_files) ''hero'' ''newest'') =
     Inr \<lparr>status = ''synced'', action = ''uploaded_to_cloud'',
          profile = Some (hero @ [(''last_cloud_sync'', JStr ''2024-06-01T12:00:00'')]),
          strategy = None\<rparr>"
proof -
  have l1: "files (init demo_files) (local_path offline_cfg ''hero'') = Some (Content hero)"
    and l2: "files (init demo_files) (local_path readonly_cfg ''hero'') = Some (Content hero)"
    and c2: "files (init demo_files) (cloud_path readonly_cfg ''hero'') = None"
    by (simp_all add: demo_paths init_def demo_files_def)
  have ne: "hero \<noteq> []"
    by (simp add: hero_def)
  have w: "write_error readonly_cfg (cloud_path readonly_cfg ''hero'') = Some ''[Errno 13] Permission denied''"
    by (simp add: readonly_cfg_def)
  have f: "\<not> truthy (fst (fetch_cloud_profile offline_cfg (init demo_files) ''hero''))"
    by (simp add: fetch_no_cloud demo_no_cloud truthy_def)
  have stamp: "dict_set hero ''last_cloud_sync'' (JStr (now readonly_cfg (clock (init demo_files)))) =
      hero @ [(''last_cloud_sync'', JStr ''2024-06-01T12:00:00'')]"
    by (simp add: hero_def readonly_cfg_def demo_cfg_def init_def demo_now_0)
  note off = upload_reported_whatever_push_returns [OF l1 ne, where strat = "''newest''"]
  note ro = upload_reported_whatever_push_returns [OF l2 ne, where strat = "''newest''" and e = "''[Errno 13] Permission denied''"]
  from off demo_no_cloud(2)
  have "push_cloud_profile offline_cfg (init demo_files) ''hero'' hero = (False, hero, init demo_files)"
    and "sync_profile offline_cfg (init demo_files) ''hero'' ''newest'' =
     (Inr \<lparr>status = ''synced'', action = ''uploaded_to_cloud'', profile = Some hero,
           strategy = None\<rparr>, init demo_files)"
    by blast+
  moreover from ro demo_no_cloud(3) c2 w
  have "fst (push_cloud_profile readonly_cfg (init demo_files) ''hero'' hero) = False"
    and "files (snd (sync_profile readonly_cfg (init demo_files) ''hero'' ''newest'')) = files (init demo_files)"
    and "fst (sync_profile readonly_cfg (init demo_files) ''hero'' ''newest'') =
     Inr \<lparr>status = ''synced'', action = ''uploaded_to_cloud'',
          profile = Some (dict_set hero ''last_cloud_sync'' (JStr (now readonly_cfg (clock (init demo_files))))),
          strategy = None\<rparr>"
    by blast+
  ultimately show ?thesis
    using l1 l2 c2 ne w f demo_no_cloud(2,3) by (simp only: stamp simp_thms)
qed

text \<open>Neither file there: the profile is reported as not found, and nothing changes.\<close>

lemma not_found_when_absent:
  assumes "files st (local_path cfg profile_id) = None"
    and "no_cloud cfg \<or> files st (cloud_path cfg profile_id) = None"
  shows "sync_profile cfg st profile_id strat =
    (Inr \<lparr>status = ''error'', action = ''profile_not_found'', profile = None, strategy = None\<rparr>, st)"
proof -
  have "fetch_cloud_profile cfg st profile_id = (None, st)"
    using assms(2) by (auto simp: fetch_no_cloud fetch_absent)
  from sync_profile_neither [OF load_local_absent [OF assms(1)] _ this]
  show ?thesis by (simp add: truthy_def)
qed

text \<open>
  C4. A local file that holds the empty document \<^verbatim>\<open>{}\<close>, with no cloud file beside it:
  the profile is present on the local replica, and \<^verbatim>\<open>sync_profile\<close> still returns status
  \<^verbatim>\<open>error\<close> and action \<^verbatim>\<open>profile_not_found\<close>, because it tests the loaded dict for truth
  and the empty dict is false. So the error status is not limited to profiles absent
  from both replicas.
\<close>

theorem empty_profile_reported_missing:
  "files (init empty_files) (local_path (demo_cfg h) ''hero'') = Some (Content []) \<and>
   sync_profile (demo_cfg h) (init empty_files) ''hero'' strat =
     (Inr \<lparr>status = ''error'', action = ''profile_not_found'', profile = None, strategy = None\<rparr>,
      init empty_files)"
proof -
  have l: "files (init empty_files) (local_path (demo_cfg h) ''hero'') = Some (Content [])"
    and c: "files (init empty_files) (cloud_path (demo_cfg h) ''hero'') = None"
    by (simp_all add: demo_paths init_def empty_files_def)
  from sync_profile_neither [OF load_local_content [OF l] _ fetch_absent [OF c]]
  show ?thesis
    using l by (simp add: truthy_def)
qed

text \<open>The remaining cases of \<^verbatim>\<open>sync_profile\<close>, and the sample profile's serializations.\<close>

lemma fetch_content:
  "\<not> no_cloud cfg \<Longrightarrow> files st (cloud_path cfg profile_id) = Some (Content c) \<Longrightarrow>
   fetch_cloud_profile cfg st profile_id =
     (Some c, log_sync cfg st (''Fetched cloud profile '' @ profile_id) ''success'')"
  by (simp add: fetch_cloud_profile_def)

lemma sync_profile_upload:
  assumes "files st (local_path cfg profile_id) = Some (Content l)" and "l \<noteq> []"
    and "\<not> no_cloud cfg" and "files st (cloud_path cfg profile_id) = None"
    and "write_error cfg (cloud_path cfg profile_id) = None"
  shows "sync_profile cfg st profile_id strat =
    (Inr \<lparr>status = ''synced'', action = ''uploaded_to_cloud'',
          profile = Some (dict_set l ''last_cloud_sync'' (JStr (now cfg (clock st)))),
          strategy = None\<rparr>,
     log_sync cfg
        (st\<lparr>clock := clock st + 1,
            files := (files st)(cloud_path cfg profile_id \<mapsto>
              Content (dict_set l ''last_cloud_sync'' (JStr (now cfg (clock st)))))\<rparr>)
        (''Pushed cloud profile '' @ profile_id) ''success'')"
  by (rule sync_profile_local_only [OF load_local_content [OF assms(1)] assms(2)
        fetch_absent [OF assms(4)] _ push_written [OF assms(3,5)]])
    (simp add: truthy_def)

lemma sync_profile_already_synced:
  assumes "load_local_profile cfg st profile_id = (Some l, st1)" and "l \<noteq> []"
    and "fetch_cloud_profile cfg st1 profile_id = (Some c, st2)" and "c \<noteq> []"
    and "get_profile_hash cfg l = get_profile_hash cfg c"
  shows "sync_profile cfg st profile_id strat =
    (Inr \<lparr>status = ''synced'', action = ''already_synced'', profile = Some l, strategy = None\<rparr>, st2)"
  using assms by (simp add: sync_profile_def truthy_def)

lemma sync_profile_conflict:
  assumes "load_local_profile cfg st profile_id = (Some l, st1)" and "l \<noteq> []"
    and "fetch_cloud_profile cfg st1 profile_id = (Some c, st2)" and "c \<noteq> []"
    and "get_profile_hash cfg l \<noteq> get_profile_hash cfg c"
    and "fst (resolve_conflict cfg st2 l c strat) = Inr r"
  shows "\<exists>p. fst (sync_profile cfg st profile_id strat) =
    Inr \<lparr>status = ''synced'', action = ''conflict_resolved'', profile = Some p,
         strategy = Some strat\<rparr>"
proof -
  obtain st3 where r: "resolve_conflict cfg st2 l c strat = (Inr r, st3)"
    using assms(6) by (cases "resolve_conflict cfg st2 l c strat") simp
  show ?thesis
    using assms(1-5) by (simp add: sync_profile_def truthy_def r case_prod_beta)
qed

lemma stamped_hero_eq: "dict_set hero ''last_cloud_sync'' (JStr (demo_now 0)) = stamped_hero"
  by (simp add: hero_def stamped_hero_def demo_now_0)

lemma dict_get_other_dict_set: "k' \<noteq> k \<Longrightarrow> dict_get (dict_set d k v) k' = dict_get d k'"
  by (simp add: dict_get_dict_set)

text \<open>
  C1, as the code has it. A non-empty profile whose local file is there and whose cloud
  file is not, on an engine with a cloud URL and a writable cloud file:
  \<^verbatim>\<open>sync_profile\<close> returns status \<^verbatim>\<open>synced\<close> and action \<^verbatim>\<open>uploaded_to_cloud\<close>. The push sets
  \<^verbatim>\<open>last_cloud_sync\<close> on the loaded dict before it writes it, so the cloud file and the
  returned profile are both the local document with that key set to the time of the
  push; every other key is as in the local document.
\<close>

theorem upload_stamps_remote_copy:
  assumes "files st (local_path cfg profile_id) = Some (Content l)" and "l \<noteq> []"
    and "\<not> no_cloud cfg" and "files st (cloud_path cfg profile_id) = None"
    and "write_error cfg (cloud_path cfg profile_id) = None"
  shows "let stamped = dict_set l ''last_cloud_sync'' (JStr (now cfg (clock st)));
             after = snd (sync_profile cfg st profile_id strat)
         in fst (sync_profile cfg st profile_id strat) =
              Inr \<lparr>status = ''synced'', action = ''uploaded_to_cloud'', profile = Some stamped,
                   strategy = None\<rparr> \<and>
            files after (cloud_path cfg profile_id) = Some (Content stamped) \<and>
            dict_get stamped ''last_cloud_sync'' = Some (JStr (now cfg (clock st))) \<and>
            (\<forall>k. k \<noteq> ''last_cloud_sync'' \<longrightarrow> dict_get stamped k = dict_get l k)"
proof -
  note s = sync_profile_upload [OF assms, of strat]
  show ?thesis
    by (simp add: Let_def s files_log_sync dict_get_dict_set)
qed

theorem upload_stamps_remote_copy_witness:
  "files (init demo_files) (local_path (demo_cfg length_digest) ''hero'') = Some (Content hero) \<and>
   hero \<noteq> [] \<and> \<not> no_cloud (demo_cfg length_digest) \<and>
   files (init demo_files) (cloud_path (demo_cfg length_digest) ''hero'') = None \<and>
   write_error (demo_cfg length_digest) (cloud_path (demo_cfg length_digest) ''hero'') = None \<and>
   fst (sync_profile (demo_cfg length_digest) (init demo_files) ''hero'' ''newest'') =
     Inr \<lparr>status = ''synced'', action = ''uploaded_to_cloud'', profile = Some stamped_hero,
          strategy = None\<rparr> \<and>
   files (snd (sync_profile (demo_cfg length_digest) (init demo_files) ''hero'' ''newest''))
     ''data/profiles/cloud_hero.json'' = Some (Content stamped_hero)"
proof -
  have l: "files (init demo_files) (local_path (demo_cfg length_digest) ''hero'') = Some (Content hero)"
    and c: "files (init demo_files) (cloud_path (demo_cfg length_digest) ''hero'') = None"
    by (simp_all add: demo_paths init_def demo_files_def)
  have ne: "hero \<noteq> []"
    by (simp add: hero_def)
  have w: "write_error (demo_cfg length_digest) (cloud_path (demo_cfg length_digest) ''hero'') = None"
    by (simp add: demo_cfg_def)
  have st: "dict_set hero ''last_cloud_sync''
      (JStr (now (demo_cfg length_digest) (clock (init demo_files)))) = stamped_hero"
    using stamped_hero_eq by (simp add: demo_cfg_def init_def)
  note t = upload_stamps_remote_copy [OF l ne demo_no_cloud(1) c w, of "''newest''",
      unfolded Let_def st]
  from t
  have "fst (sync_profile (demo_cfg length_digest) (init demo_files) ''hero'' ''newest'') =
     Inr \<lparr>status = ''synced'', action = ''uploaded_to_cloud'', profile = Some stamped_hero,
          strategy = None\<rparr>"
    and "files (snd (sync_profile (demo_cfg length_digest) (init demo_files) ''hero'' ''newest''))
      (cloud_path (demo_cfg length_digest) ''hero'') = Some (Content stamped_hero)"
    by blast+
  then show ?thesis
    using l c ne w demo_no_cloud(1) by (simp add: demo_paths)
qed


text \<open>
  The claim C1 as stated fails on the sample profile: the returned profile and the cloud
  document carry \<^verbatim>\<open>last_cloud_sync\<close> and the local document does not, so the returned
  profile is not the local copy, and the cloud document's canonical serialization is
  not that of the local body before the call.
\<close>

theorem upload_returns_local_copy_counterexample:
  "\<forall>h. files (init demo_files) (local_path (demo_cfg h) ''hero'') = Some (Content hero) \<and>
     files (init demo_files) (cloud_path (demo_cfg h) ''hero'') = None \<and>
     fst (sync_profile (demo_cfg h) (init demo_files) ''hero'' ''newest'') =
       Inr \<lparr>status = ''synced'', action = ''uploaded_to_cloud'', profile = Some stamped_hero,
            strategy = None\<rparr> \<and>
     stamped_hero \<noteq> hero \<and>
     files (snd (sync_profile (demo_cfg h) (init demo_files) ''hero'' ''newest''))
       (cloud_path (demo_cfg h) ''hero'') = Some (Content stamped_hero) \<and>
     dumps (JObj stamped_hero) \<noteq> dumps (JObj hero)"
proof
  fix h
  have l: "files (init demo_files) (local_path (demo_cfg h) ''hero'') = Some (Content hero)"
    and c: "files (init demo_files) (cloud_path (demo_cfg h) ''hero'') = None"
    by (simp_all add: demo_paths init_def demo_files_def)
  have ne: "hero \<noteq> []"
    by (simp add: hero_def)
  have w: "write_error (demo_cfg h) (cloud_path (demo_cfg h) ''hero'') = None"
    by (simp add: demo_cfg_def)
  have st: "dict_set hero ''last_cloud_sync'' (JStr (now (demo_cfg h) (clock (init demo_files)))) =
      stamped_hero"
    using stamped_hero_eq by (simp add: demo_cfg_def init_def)
  note s = sync_profile_upload [OF l ne demo_no_cloud(1) c w, of "''newest''", unfolded st]
  have d: "stamped_hero \<noteq> hero"
    by (simp add: stamped_hero_def hero_def)
  have t: "dumps (JObj stamped_hero) \<noteq> dumps (JObj hero)"
    unfolding dumps_hero dumps_stamped_hero by simp
  show "files (init demo_files) (local_path (demo_cfg h) ''hero'') = Some (Content hero) \<and>
     files (init demo_files) (cloud_path (demo_cfg h) ''hero'') = None \<and>
     fst (sync_profile (demo_cfg h) (init demo_files) ''hero'' ''newest'') =
       Inr \<lparr>status = ''synced'', action = ''uploaded_to_cloud'', profile = Some stamped_hero,
            strategy = None\<rparr> \<and>
     stamped_hero \<noteq> hero \<and>
     files (snd (sync_profile (demo_cfg h) (init demo_files) ''hero'' ''newest''))
       (cloud_path (demo_cfg h) ''hero'') = Some (Content stamped_hero) \<and>
     dumps (JObj stamped_hero) \<noteq> dumps (JObj hero)"
    using l c d t by (simp add: s files_log_sync)
qed

text \<open>
  C2. Two calls of \<^verbatim>\<open>sync_profile\<close> in a row on the sample profile, nothing written in
  between: the first uploads; the second finds a local file without \<^verbatim>\<open>last_cloud_sync\<close>
  and a cloud file with it, and, unless SHA-256 gives the two serializations the same
  digest, reports \<^verbatim>\<open>conflict_resolved\<close>, not \<^verbatim>\<open>already_synced\<close>.
\<close>

theorem second_sync_reports_conflict:
  assumes "h (dumps (JObj hero)) \<noteq> h (dumps (JObj stamped_hero))"
  shows "fst (sync_profile (demo_cfg h) (init demo_files) ''hero'' ''newest'') =
       Inr \<lparr>status = ''synced'', action = ''uploaded_to_cloud'', profile = Some stamped_hero,
            strategy = None\<rparr> \<and>
     (\<exists>p. fst (sync_profile (demo_cfg h)
              (snd (sync_profile (demo_cfg h) (init demo_files) ''hero'' ''newest''))
              ''hero'' ''newest'') =
       Inr \<lparr>status = ''synced'', action = ''conflict_resolved'', profile = Some p,
            strategy = Some ''newest''\<rparr>)"
proof -
  let ?cfg = "demo_cfg h"
  have l: "files (init demo_files) (local_path ?cfg ''hero'') = Some (Content hero)"
    and c: "files (init demo_files) (cloud_path ?cfg ''hero'') = None"
    by (simp_all add: demo_paths init_def demo_files_def)
  have ne: "hero \<noteq> []" and ne': "stamped_hero \<noteq> []"
    by (simp_all add: hero_def stamped_hero_def)
  have w: "write_error ?cfg (cloud_path ?cfg ''hero'') = None"
    by (simp add: demo_cfg_def)
  have st: "dict_set hero ''last_cloud_sync'' (JStr (now ?cfg (clock (init demo_files)))) =
      stamped_hero"
    using stamped_hero_eq by (simp add: demo_cfg_def init_def)
  note s = sync_profile_upload [OF l ne demo_no_cloud(1) c w, of "''newest''", unfolded st]
  define st1 where "st1 = snd (sync_profile ?cfg (init demo_files) ''hero'' ''newest'')"
  have l1: "files st1 (local_path ?cfg ''hero'') = Some (Content hero)"
    and c1: "files st1 (cloud_path ?cfg ''hero'') = Some (Content stamped_hero)"
    unfolding st1_def s snd_conv files_log_sync
    by (simp_all add: demo_paths init_def demo_files_def)
  have hash: "get_profile_hash ?cfg hero \<noteq> get_profile_hash ?cfg stamped_hero"
    using assms by (simp add: get_profile_hash_eq_iff demo_cfg_def)
  have res: "fst (resolve_conflict ?cfg st2 hero stamped_hero ''newest'') = Inr stamped_hero" for st2
    by (simp add: resolve_conflict_def dict_get_default_def hero_def stamped_hero_def)
  have first: "fst (sync_profile ?cfg (init demo_files) ''hero'' ''newest'') =
       Inr \<lparr>status = ''synced'', action = ''uploaded_to_cloud'', profile = Some stamped_hero,
            strategy = None\<rparr>"
    by (simp add: s)
  have second: "\<exists>p. fst (sync_profile ?cfg st1 ''hero'' ''newest'') =
       Inr \<lparr>status = ''synced'', action = ''conflict_resolved'', profile = Some p,
            strategy = Some ''newest''\<rparr>"
    by (rule sync_profile_conflict [OF load_local_content [OF l1] ne
      fetch_content [OF demo_no_cloud(1) c1] ne' hash res])
  from first second show ?thesis
    unfolding st1_def by blast
qed

theorem second_sync_reports_conflict_witness:
  "length_digest (dumps (JObj hero)) \<noteq> length_digest (dumps (JObj stamped_hero)) \<and>
   fst (sync_profile (demo_cfg length_digest) (init demo_files) ''hero'' ''newest'') =
       Inr \<lparr>status = ''synced'', action = ''uploaded_to_cloud'', profile = Some stamped_hero,
            strategy = None\<rparr> \<and>
     (\<exists>p. fst (sync_profile (demo_cfg length_digest)
              (snd (sync_profile (demo_cfg length_digest) (init demo_files) ''hero'' ''newest''))
              ''hero'' ''newest'') =
       Inr \<lparr>status = ''synced'', action = ''conflict_resolved'', profile = Some p,
            strategy = Some ''newest''\<rparr>)"
proof -
  have d: "length_digest (dumps (JObj hero)) \<noteq> length_digest (dumps (JObj stamped_hero))"
    unfolding dumps_hero dumps_stamped_hero by (rule length_digest_neq) simp_all
  from second_sync_reports_conflict [OF d] d show ?thesis
    by blast
qed


end
